theory Spec2Isabelle
  imports Complex_Main "HOL-Library.Word" "HOL-Library.Code_Target_Nat"
begin

section \<open>Data model\<close>

text \<open>
  The chunk/manifest protocol of the repository: \<open>FileChunker\<close> (the write path) and
  \<open>FileDecryptor\<close> (the read path), with the interfaces of \<open>types/index.ts\<close>.
  A \<open>Buffer\<close> is a list of bytes. Record fields keep the names of the TypeScript
  interfaces; the optional fields of \<open>ChunkManifest\<close> (\<open>isChunked?\<close>, \<open>path?\<close>,
  \<open>size?\<close>, \<open>hash?\<close>) are options, \<open>None\<close> standing for \<open>undefined\<close>, and carry
  the suffix \<open>_m\<close> where the name is already a field of \<open>ChunkInfo\<close>; the field
  \<open>size\<close> of \<open>ChunkInfo\<close> is \<open>size_c\<close>. The \<open>index\<close> of a chunk record is a
  natural number: a manifest with a negative or a fractional index is not modelled.
\<close>

type_synonym byte = "8 word"
type_synonym buffer = "byte list"

record ChunkInfo =
  index :: nat
  path :: string
  size_c :: nat
  hash :: string

record ChunkManifest =
  originalFile :: string
  originalSize :: nat
  numChunks :: nat
  chunkSize :: nat
  chunks :: "ChunkInfo list"
  createdAt :: string
  isChunked :: "bool option"
  path_m :: "string option"
  size_m :: "nat option"
  hash_m :: "string option"

text \<open>
  The error classes of \<open>types/index.ts\<close> that the two scripts throw, each with its
  message. \<open>TypeError\<close> is the JavaScript runtime error, \<open>SystemError\<close> an error of the
  \<open>fs\<close> module (a file that does not exist).
\<close>

datatype error =
    EncryptionError string
  | DecryptionError string
  | CompressionError string
  | ChunkError string
  | TypeError string
  | SystemError string

text \<open>
  What is not part of the repository is a parameter: the shell commands started by
  \<open>execSync\<close>, the digest of the \<open>crypto\<close> module and \<open>path.join\<close>. A command maps its
  input to what it writes to its standard output, or to the message of the error with
  which the call fails: a command that exits with an error, or one that cannot be started
  (\<open>compressZstd\<close> puts its whole input on the command line, in base64, and the system
  refuses a command line that is too long with \<open>E2BIG\<close>). \<open>age -d\<close> reads the file named
  on its command line, so it is given the content of that file, or \<open>None\<close> when there
  is no such file.
\<close>

record tools =
  zstd_compress :: "buffer \<Rightarrow> string + buffer"
  zstd_decompress :: "buffer \<Rightarrow> string + buffer"
  age_encrypt :: "string \<Rightarrow> buffer \<Rightarrow> string + buffer"
  age_decrypt :: "string \<Rightarrow> buffer option \<Rightarrow> string + buffer"
  sha256_hex :: "buffer \<Rightarrow> string"
  path_join :: "string \<Rightarrow> string \<Rightarrow> string"

text \<open>
  The process environment. \<open>CHUNK_SIZE\<close> is a natural number: a value that \<open>parseInt\<close>
  reads as negative or as \<open>NaN\<close> is not modelled. \<open>now\<close> is the value of
  \<open>new Date().toISOString()\<close>.
\<close>

record env =
  AGE_PUBLIC_KEY :: "string option"
  AGE_PRIVATE_KEY :: "string option"
  CHUNK_SIZE :: nat
  now :: string

text \<open>The constant of \<open>chunk-files\<close>: 100 MiB.\<close>

definition MAX_GITHUB_SIZE :: nat where
  "MAX_GITHUB_SIZE = 100 * 1024 * 1024"

text \<open>
  The state the scripts act on: the files of the artifact store, the JSON documents
  written by \<open>writeJson\<close> and read by \<open>readJson\<close> (kept as manifest values), the
  commands started so far (the transform work), and the \<open>cache\<close> of the
  \<open>FileDecryptor\<close> object. A key of the cache is the argument of
  \<open>decryptAndDecompress\<close>, which is \<open>undefined\<close> (\<open>None\<close>) when the manifest has no
  \<open>path\<close>.
\<close>

datatype exec =
    Zstd_c buffer
  | Age_e string buffer
  | Age_d string string
  | Zstd_d buffer

record world =
  files :: "string \<rightharpoonup> buffer"
  manifests :: "string \<rightharpoonup> ChunkManifest"
  execs :: "exec list"
  cache :: "string option \<rightharpoonup> buffer"

section \<open>Strings and numbers as JavaScript has them\<close>

definition digit :: "nat \<Rightarrow> char" where
  "digit d = ''0123456789'' ! d"

fun toString :: "nat \<Rightarrow> string" where
  "toString n = (if n < 10 then [digit n] else toString (n div 10) @ [digit (n mod 10)])"

declare toString.simps [simp del]

definition padStart :: "nat \<Rightarrow> char \<Rightarrow> string \<Rightarrow> string" where
  "padStart n c s = replicate (n - length s) c @ s"

text \<open>A value interpolated into a template literal: \<open>undefined\<close> prints as its name.\<close>

definition template :: "string option \<Rightarrow> string" where
  "template p = (case p of None \<Rightarrow> ''undefined'' | Some q \<Rightarrow> q)"

text \<open>A path as the messages of the \<open>fs\<close> module print it: between apostrophes.\<close>

definition quoted :: "string \<Rightarrow> string" where
  "quoted p = [CHR 0x27] @ p @ [CHR 0x27]"

text \<open>\<open>Math.round(n / 1024 / 1024)\<close> and \<open>Math.ceil(n / t)\<close> on natural numbers.\<close>

definition round_MB :: "nat \<Rightarrow> nat" where
  "round_MB n = (n + 524288) div 1048576"

definition ceil_div :: "nat \<Rightarrow> nat \<Rightarrow> nat" where
  "ceil_div n t = (if n mod t = 0 then n div t else n div t + 1)"

section \<open>execSync\<close>

text \<open>
  Neither script passes \<open>maxBuffer\<close> to \<open>execSync\<close>, so Node's default of 1 MiB holds:
  a command that writes more than that to its standard output is ended, and the call
  fails with \<open>ENOBUFS\<close>.
\<close>

definition maxBuffer :: nat where
  "maxBuffer = 1024 * 1024"

definition execSync :: "string + buffer \<Rightarrow> string + buffer" where
  "execSync command =
     (case command of
        Inl msg \<Rightarrow> Inl msg
      | Inr stdout \<Rightarrow>
          if maxBuffer < length stdout then Inl ''spawnSync /bin/sh ENOBUFS'' else Inr stdout)"

section \<open>FileChunker\<close>

definition calculateHash :: "tools \<Rightarrow> buffer \<Rightarrow> string" where
  "calculateHash t data = sha256_hex t data"

definition compressZstd :: "tools \<Rightarrow> buffer \<Rightarrow> world \<Rightarrow> (error + buffer) \<times> world" where
  "compressZstd t data w =
     (let w1 = w\<lparr>execs := execs w @ [Zstd_c data]\<rparr> in
      case execSync (zstd_compress t data) of
        Inl msg \<Rightarrow> (Inl (CompressionError (''Zstd compression failed: '' @ msg)), w1)
      | Inr result \<Rightarrow> (Inr result, w1))"

text \<open>\<open>!publicKey\<close> holds for an unset variable and for the empty string.\<close>

definition encryptAge :: "tools \<Rightarrow> env \<Rightarrow> buffer \<Rightarrow> world \<Rightarrow> (error + buffer) \<times> world" where
  "encryptAge t e data w =
     (case AGE_PUBLIC_KEY e of
        None \<Rightarrow> (Inl (EncryptionError ''AGE_PUBLIC_KEY environment variable required''), w)
      | Some publicKey \<Rightarrow>
          if publicKey = [] then
            (Inl (EncryptionError ''AGE_PUBLIC_KEY environment variable required''), w)
          else
            (let w1 = w\<lparr>execs := execs w @ [Age_e publicKey data]\<rparr> in
             case execSync (age_encrypt t publicKey data) of
               Inl msg \<Rightarrow> (Inl (EncryptionError (''Age encryption failed: '' @ msg)), w1)
             | Inr result \<Rightarrow> (Inr result, w1)))"

definition compressAndEncrypt ::
    "tools \<Rightarrow> env \<Rightarrow> buffer \<Rightarrow> string \<Rightarrow> world \<Rightarrow> (error + unit) \<times> world" where
  "compressAndEncrypt t e data outputPath w =
     (case compressZstd t data w of
        (Inl err, w1) \<Rightarrow> (Inl err, w1)
      | (Inr compressed, w1) \<Rightarrow>
          (case encryptAge t e compressed w1 of
             (Inl err, w2) \<Rightarrow> (Inl err, w2)
           | (Inr encrypted, w2) \<Rightarrow>
               (Inr (), w2\<lparr>files := (files w2)(outputPath \<mapsto> encrypted)\<rparr>)))"

text \<open>\<open>fs.stat(p).size\<close>: the length of the file, or the error of a missing file.\<close>

definition stat_size :: "world \<Rightarrow> string \<Rightarrow> error + nat" where
  "stat_size w p =
     (case files w p of
        None \<Rightarrow> Inl (SystemError (''ENOENT: no such file or directory, stat '' @ quoted p))
      | Some content \<Rightarrow> Inr (length content))"

definition processSmallFile ::
    "tools \<Rightarrow> env \<Rightarrow> string \<Rightarrow> string \<Rightarrow> string \<Rightarrow> world \<Rightarrow> (error + ChunkManifest) \<times> world"
  where
  "processSmallFile t e inputPath outputDir baseName w =
     (case files w inputPath of
        None \<Rightarrow>
          (Inl (SystemError (''ENOENT: no such file or directory, open '' @ quoted inputPath)),
           w)
      | Some buffer \<Rightarrow>
          (let outputPath = path_join t outputDir (baseName @ ''.age.zst'') in
           case compressAndEncrypt t e buffer outputPath w of
             (Inl err, w1) \<Rightarrow> (Inl err, w1)
           | (Inr _, w1) \<Rightarrow>
               (case stat_size w1 outputPath of
                  Inl err \<Rightarrow> (Inl err, w1)
                | Inr stats_size \<Rightarrow>
                    (Inr \<lparr>originalFile = baseName,
                          originalSize = length buffer,
                          numChunks = 1,
                          chunkSize = CHUNK_SIZE e,
                          chunks = [],
                          createdAt = now e,
                          isChunked = Some False,
                          path_m = Some outputPath,
                          size_m = Some stats_size,
                          hash_m = Some (calculateHash t buffer)\<rparr>, w1))))"

text \<open>
  The file handle. \<open>fs\<close> is \<open>fs-extra\<close>, whose \<open>open\<close> without a callback resolves to
  the numeric file descriptor (whose value plays no role), not to a \<open>FileHandle\<close> object.
  A number has no \<open>read\<close> and no \<open>close\<close>: calling either throws a \<open>TypeError\<close>.
\<close>

definition fs_open :: "world \<Rightarrow> string \<Rightarrow> error + nat" where
  "fs_open w p =
     (case files w p of
        None \<Rightarrow> Inl (SystemError (''ENOENT: no such file or directory, open '' @ quoted p))
      | Some content \<Rightarrow> Inr 3)"

definition fileHandle_read :: "nat \<Rightarrow> buffer \<Rightarrow> nat \<Rightarrow> nat \<Rightarrow> nat \<Rightarrow> error + buffer" where
  "fileHandle_read fileHandle buffer offset len position =
     Inl (TypeError ''fileHandle.read is not a function'')"

definition fileHandle_close :: "nat \<Rightarrow> error + unit" where
  "fileHandle_close fileHandle = Inl (TypeError ''fileHandle.close is not a function'')"

definition chunkPath :: "tools \<Rightarrow> string \<Rightarrow> string \<Rightarrow> nat \<Rightarrow> string" where
  "chunkPath t outputDir baseName i =
     path_join t outputDir
       (baseName @ ''.chunk.'' @ padStart 3 (CHR ''0'') (toString i) @ ''.age.zst'')"

text \<open>
  The test \<open>i < numChunks\<close> of the loop, with
  \<open>numChunks = Math.ceil(fileSize / CHUNK_SIZE)\<close>. The loop is reached with a positive
  \<open>fileSize\<close> only, for which \<open>fileSize / 0\<close> is \<open>Infinity\<close>.
\<close>

definition more_chunks :: "env \<Rightarrow> nat \<Rightarrow> nat \<Rightarrow> bool" where
  "more_chunks e fileSize i =
     (if CHUNK_SIZE e = 0 then True else i < ceil_div fileSize (CHUNK_SIZE e))"

text \<open>
  The \<open>for\<close> loop of \<open>chunkFile\<close>, from iteration \<open>i\<close> on, with the records pushed so
  far. \<open>Buffer.alloc(len)\<close> is \<open>len\<close> zero bytes, which \<open>fileHandle.read\<close> is to fill.
  The loop ends by the \<open>TypeError\<close> of the first \<open>fileHandle.read\<close>: nothing after it is
  reached.
\<close>

function chunkLoop ::
    "tools \<Rightarrow> env \<Rightarrow> nat \<Rightarrow> string \<Rightarrow> string \<Rightarrow> nat \<Rightarrow> nat \<Rightarrow> ChunkInfo list \<Rightarrow> world
      \<Rightarrow> (error + ChunkInfo list) \<times> world" where
  "chunkLoop t e fileHandle outputDir baseName fileSize i acc w =
     (if more_chunks e fileSize i then
        (case fileHandle_read fileHandle
                (replicate (min (CHUNK_SIZE e) (fileSize - i * CHUNK_SIZE e)) 0) 0
                (min (CHUNK_SIZE e) (fileSize - i * CHUNK_SIZE e)) (i * CHUNK_SIZE e) of
           Inl err \<Rightarrow> (Inl err, w)
         | Inr buffer \<Rightarrow>
             (case compressAndEncrypt t e buffer (chunkPath t outputDir baseName i) w of
                (Inl err, w1) \<Rightarrow> (Inl err, w1)
              | (Inr _, w1) \<Rightarrow>
                  (case stat_size w1 (chunkPath t outputDir baseName i) of
                     Inl err \<Rightarrow> (Inl err, w1)
                   | Inr chunk_size \<Rightarrow>
                       if chunk_size > MAX_GITHUB_SIZE then
                         (Inl (ChunkError (''Chunk '' @ toString i @ '' is ''
                                 @ toString (round_MB chunk_size)
                                 @ ''MB, exceeds GitHub limit!'')), w1)
                       else
                         chunkLoop t e fileHandle outputDir baseName fileSize (Suc i)
                           (acc @ [\<lparr>index = i, path = chunkPath t outputDir baseName i,
                                    size_c = chunk_size, hash = calculateHash t buffer\<rparr>])
                           w1)))
      else (Inr acc, w))"
  by pat_completeness auto
termination
proof (relation "{}")
  show "wf {}" by simp
next
  fix t :: tools and e :: env and fileHandle i fileSize :: nat and outputDir baseName :: string
    and acc :: "ChunkInfo list" and w w1 :: world and buffer :: buffer and x :: "error + unit"
    and chunk_size :: nat
  assume "fileHandle_read fileHandle
            (replicate (min (CHUNK_SIZE e) (fileSize - i * CHUNK_SIZE e)) 0) 0
            (min (CHUNK_SIZE e) (fileSize - i * CHUNK_SIZE e)) (i * CHUNK_SIZE e) = Inr buffer"
  then have False by (simp add: fileHandle_read_def)
  then show "((t, e, fileHandle, outputDir, baseName, fileSize, Suc i,
               acc @ [\<lparr>index = i, path = chunkPath t outputDir baseName i,
                        size_c = chunk_size, hash = calculateHash t buffer\<rparr>], w1),
              (t, e, fileHandle, outputDir, baseName, fileSize, i, acc, w)) \<in> {}"
    by simp
qed

declare chunkLoop.simps [simp del]

text \<open>
  \<open>chunkFile\<close>. The loop runs inside \<open>try\<close>, and \<open>finally\<close> calls
  \<open>fileHandle.close()\<close>: the error of \<open>finally\<close> replaces whatever the loop ended with.
\<close>

definition chunkFile ::
    "tools \<Rightarrow> env \<Rightarrow> string \<Rightarrow> string \<Rightarrow> string \<Rightarrow> world
      \<Rightarrow> (error + ChunkManifest) \<times> world" where
  "chunkFile t e inputPath outputDir baseName w =
     (case stat_size w inputPath of
        Inl err \<Rightarrow> (Inl err, w)
      | Inr fileSize \<Rightarrow>
          if fileSize \<le> MAX_GITHUB_SIZE then
            processSmallFile t e inputPath outputDir baseName w
          else
            (case fs_open w inputPath of
               Inl err \<Rightarrow> (Inl err, w)
             | Inr fileHandle \<Rightarrow>
                 (case chunkLoop t e fileHandle outputDir baseName fileSize 0 [] w of
                    (tried, w1) \<Rightarrow>
                      (case fileHandle_close fileHandle of
                         Inl err \<Rightarrow> (Inl err, w1)
                       | Inr _ \<Rightarrow>
                           (case tried of
                              Inl err \<Rightarrow> (Inl err, w1)
                            | Inr chunks_v \<Rightarrow>
                                (let manifest =
                                       \<lparr>originalFile = baseName,
                                        originalSize = fileSize,
                                        numChunks = ceil_div fileSize (CHUNK_SIZE e),
                                        chunkSize = CHUNK_SIZE e,
                                        chunks = chunks_v,
                                        createdAt = now e,
                                        isChunked = None,
                                        path_m = None,
                                        size_m = None,
                                        hash_m = None\<rparr>;
                                     manifestPath =
                                       path_join t outputDir (baseName @ ''.manifest.json'')
                                 in (Inr manifest,
                                     w1\<lparr>manifests :=
                                          (manifests w1)(manifestPath \<mapsto> manifest)\<rparr>)))))))"

section \<open>FileDecryptor\<close>

text \<open>\<open>!privateKey\<close> holds for an unset variable and for the empty string.\<close>

definition decryptAge :: "tools \<Rightarrow> env \<Rightarrow> string option \<Rightarrow> world \<Rightarrow> (error + buffer) \<times> world" where
  "decryptAge t e inputPath w =
     (case AGE_PRIVATE_KEY e of
        None \<Rightarrow> (Inl (DecryptionError ''AGE_PRIVATE_KEY environment variable required''), w)
      | Some privateKey \<Rightarrow>
          if privateKey = [] then
            (Inl (DecryptionError ''AGE_PRIVATE_KEY environment variable required''), w)
          else
            (let w1 = w\<lparr>execs := execs w @ [Age_d privateKey (template inputPath)]\<rparr> in
             case execSync (age_decrypt t privateKey (files w (template inputPath))) of
               Inl msg \<Rightarrow> (Inl (DecryptionError (''Age decryption failed: '' @ msg)), w1)
             | Inr result \<Rightarrow> (Inr result, w1)))"

definition decompressZstd :: "tools \<Rightarrow> buffer \<Rightarrow> world \<Rightarrow> (error + buffer) \<times> world" where
  "decompressZstd t data w =
     (let w1 = w\<lparr>execs := execs w @ [Zstd_d data]\<rparr> in
      case execSync (zstd_decompress t data) of
        Inl msg \<Rightarrow> (Inl (CompressionError (''Zstd decompression failed: '' @ msg)), w1)
      | Inr result \<Rightarrow> (Inr result, w1))"

definition decryptAndDecompress ::
    "tools \<Rightarrow> env \<Rightarrow> string option \<Rightarrow> world \<Rightarrow> (error + buffer) \<times> world" where
  "decryptAndDecompress t e inputPath w =
     (case cache w inputPath of
        Some cached \<Rightarrow> (Inr cached, w)
      | None \<Rightarrow>
          (case decryptAge t e inputPath w of
             (Inl err, w1) \<Rightarrow> (Inl err, w1)
           | (Inr decrypted, w1) \<Rightarrow>
               (case decompressZstd t decrypted w1 of
                  (Inl err, w2) \<Rightarrow> (Inl err, w2)
                | (Inr decompressed, w2) \<Rightarrow>
                    (Inr decompressed, w2\<lparr>cache := (cache w2)(inputPath \<mapsto> decompressed)\<rparr>))))"

definition clearCache :: "world \<Rightarrow> world" where
  "clearCache w = w\<lparr>cache := Map.empty\<rparr>"

definition decryptSingleFile ::
    "tools \<Rightarrow> env \<Rightarrow> string option \<Rightarrow> string \<Rightarrow> world \<Rightarrow> (error + buffer) \<times> world" where
  "decryptSingleFile t e inputPath outputPath w =
     (case decryptAndDecompress t e inputPath w of
        (Inl err, w1) \<Rightarrow> (Inl err, w1)
      | (Inr data, w1) \<Rightarrow> (Inr data, w1\<lparr>files := (files w1)(outputPath \<mapsto> data)\<rparr>))"

text \<open>
  The local array \<open>chunks: Buffer[]\<close> of \<open>decryptFile\<close>. A number below \<open>2^32 - 1\<close> is
  an array index: an assignment beyond the end extends the array and leaves holes
  (\<open>None\<close>) in between. A larger number is not an array index: the assignment sets a
  property of the object and leaves the elements and the length as they are.
  \<open>Buffer.concat\<close> reads \<open>list[i].length\<close> of every element and throws a \<open>TypeError\<close>
  at a hole.
\<close>

definition array_index_bound :: nat where
  "array_index_bound = 4294967295"

definition array_set :: "'a option list \<Rightarrow> nat \<Rightarrow> 'a \<Rightarrow> 'a option list" where
  "array_set xs i v =
     (if array_index_bound \<le> i then xs
      else if i < length xs then xs[i := Some v]
      else xs @ replicate (i - length xs) None @ [Some v])"

fun Buffer_concat :: "buffer option list \<Rightarrow> error + buffer" where
  "Buffer_concat [] = Inr []"
| "Buffer_concat (None # bs) =
     Inl (TypeError ''Cannot read properties of undefined (reading 'length')'')"
| "Buffer_concat (Some b # bs) =
     (case Buffer_concat bs of Inl err \<Rightarrow> Inl err | Inr rest \<Rightarrow> Inr (b @ rest))"

definition hash_mismatch :: "ChunkInfo \<Rightarrow> string \<Rightarrow> string" where
  "hash_mismatch chunkInfo hash_v =
     ''Chunk '' @ toString (index chunkInfo) @ '' hash mismatch! Expected '' @ hash chunkInfo
       @ '', got '' @ hash_v"

definition size_mismatch :: "nat \<Rightarrow> nat \<Rightarrow> string" where
  "size_mismatch expected got =
     ''File size mismatch! Expected '' @ toString expected @ '', got '' @ toString got"

text \<open>The loop \<open>for (const chunkInfo of manifest.chunks)\<close> over the local array.\<close>

fun decryptChunks ::
    "tools \<Rightarrow> env \<Rightarrow> ChunkInfo list \<Rightarrow> buffer option list \<Rightarrow> world
      \<Rightarrow> (error + buffer option list) \<times> world" where
  "decryptChunks t e [] arr w = (Inr arr, w)"
| "decryptChunks t e (chunkInfo # rest) arr w =
     (case decryptAndDecompress t e (Some (path chunkInfo)) w of
        (Inl err, w1) \<Rightarrow> (Inl err, w1)
      | (Inr chunkData, w1) \<Rightarrow>
          (let hash_v = calculateHash t chunkData in
           if hash_v \<noteq> hash chunkInfo then
             (Inl (ChunkError (hash_mismatch chunkInfo hash_v)), w1)
           else decryptChunks t e rest (array_set arr (index chunkInfo) chunkData) w1))"

definition decryptFile ::
    "tools \<Rightarrow> env \<Rightarrow> string \<Rightarrow> string \<Rightarrow> world \<Rightarrow> (error + buffer) \<times> world" where
  "decryptFile t e manifestPath outputPath w =
     (case manifests w manifestPath of
        None \<Rightarrow>
          (Inl (SystemError (''ENOENT: no such file or directory, open ''
                    @ quoted manifestPath)), w)
      | Some manifest \<Rightarrow>
          if isChunked manifest \<noteq> Some True then
            decryptSingleFile t e (path_m manifest) outputPath w
          else
            (case decryptChunks t e (chunks manifest) [] w of
               (Inl err, w1) \<Rightarrow> (Inl err, w1)
             | (Inr arr, w1) \<Rightarrow>
                 (case Buffer_concat arr of
                    Inl err \<Rightarrow> (Inl err, w1)
                  | Inr fullData \<Rightarrow>
                      if length fullData \<noteq> originalSize manifest then
                        (Inl (ChunkError
                                (size_mismatch (originalSize manifest) (length fullData))), w1)
                      else (Inr fullData, w1\<lparr>files := (files w1)(outputPath \<mapsto> fullData)\<rparr>))))"

section \<open>Observers used in the statements\<close>


section \<open>A small instance\<close>

text \<open>
  Stand-ins for the external programs, small enough to run: \<open>zstd\<close> and \<open>age\<close> each
  put one byte in front of their input and take it off again, rejecting anything else;
  the digest prints the last decimal digit of every byte; \<open>path.join\<close> puts a slash
  between a directory and a file name, as Node does for the names used here. The chunk
  size is 2 bytes.
\<close>

definition toy_tools :: tools where
  "toy_tools =
     \<lparr>zstd_compress = (\<lambda>d. Inr (0x28 # d)),
      zstd_decompress =
        (\<lambda>d. case d of [] \<Rightarrow> Inl ''unsupported format''
              | b # r \<Rightarrow> if b = 0x28 then Inr r else Inl ''unsupported format''),
      age_encrypt = (\<lambda>k d. Inr (0x61 # d)),
      age_decrypt =
        (\<lambda>k f. case f of None \<Rightarrow> Inl ''no such file''
                | Some [] \<Rightarrow> Inl ''no header''
                | Some (b # r) \<Rightarrow> if b = 0x61 then Inr r else Inl ''no header''),
      sha256_hex = map (\<lambda>b. digit (unat b mod 10)),
      path_join = (\<lambda>dir name. dir @ ''/'' @ name)\<rparr>"


definition toy_env :: env where
  "toy_env =
     \<lparr>AGE_PUBLIC_KEY = Some ''pk'', AGE_PRIVATE_KEY = Some ''sk'',
      CHUNK_SIZE = 2, now = ''2025-01-01T00:00:00.000Z''\<rparr>"

definition no_keys_env :: env where
  "no_keys_env = toy_env\<lparr>AGE_PUBLIC_KEY := None, AGE_PRIVATE_KEY := None\<rparr>"

text \<open>A store that holds only the file to be chunked, at the path \<open>in\<close>.\<close>

definition source_world :: "buffer \<Rightarrow> world" where
  "source_world bytes =
     \<lparr>files = [''in'' \<mapsto> bytes], manifests = Map.empty, execs = [], cache = Map.empty\<rparr>"

text \<open>The manifest that \<open>chunkFile\<close> returns for the four bytes 1 to 4.\<close>

definition four_manifest :: ChunkManifest where
  "four_manifest =
     \<lparr>originalFile = ''f'', originalSize = 4, numChunks = 1, chunkSize = 2,
      chunks = [], createdAt = ''2025-01-01T00:00:00.000Z'', isChunked = Some False,
      path_m = Some ''o/f.age.zst'', size_m = Some 6, hash_m = Some ''1234''\<rparr>"

text \<open>
  A store with two artifacts, \<open>a\<close> (the encoding of the bytes 1, 2) and \<open>b\<close> (the
  encoding of 7, 7), and six manifests over them.
\<close>

definition chunk_a :: ChunkInfo where
  "chunk_a = \<lparr>index = 0, path = ''a'', size_c = 4, hash = ''12''\<rparr>"

definition chunk_b :: "nat \<Rightarrow> string \<Rightarrow> ChunkInfo" where
  "chunk_b i h = \<lparr>index = i, path = ''b'', size_c = 4, hash = h\<rparr>"

definition chunked_manifest :: "nat \<Rightarrow> ChunkInfo list \<Rightarrow> ChunkManifest" where
  "chunked_manifest n cs =
     \<lparr>originalFile = ''f'', originalSize = n, numChunks = length cs, chunkSize = 2,
      chunks = cs, createdAt = ''2025-01-01T00:00:00.000Z'', isChunked = Some True,
      path_m = None, size_m = None, hash_m = None\<rparr>"

definition single_manifest :: ChunkManifest where
  "single_manifest =
     \<lparr>originalFile = ''f'', originalSize = 99, numChunks = 1, chunkSize = 2,
      chunks = [], createdAt = ''2025-01-01T00:00:00.000Z'', isChunked = Some False,
      path_m = Some ''b'', size_m = Some 4, hash_m = Some ''12''\<rparr>"

definition store_world :: world where
  "store_world =
     \<lparr>files = [''a'' \<mapsto> [0x61, 0x28, 1, 2], ''b'' \<mapsto> [0x61, 0x28, 7, 7]],
      manifests =
        [''good.json'' \<mapsto> chunked_manifest 4 [chunk_a, chunk_b 1 ''77''],
         ''bad.json'' \<mapsto> chunked_manifest 4 [chunk_a, chunk_b 1 ''34''],
         ''dup.json'' \<mapsto> chunked_manifest 2 [chunk_a, chunk_b 0 ''77''],
         ''skip.json'' \<mapsto> chunked_manifest 4 [chunk_a, chunk_b 2 ''77''],
         ''far.json'' \<mapsto> chunked_manifest 2 [chunk_a, chunk_b 4294967295 ''77''],
         ''single.json'' \<mapsto> single_manifest],
      execs = [], cache = Map.empty\<rparr>"

section \<open>The read path: cache and digest check\<close>

lemma decryptAge_keeps:
  "decryptAge t e p w = (r, w1) \<Longrightarrow>
     files w1 = files w \<and> manifests w1 = manifests w \<and> cache w1 = cache w"
  by (auto simp: decryptAge_def Let_def split: option.splits if_splits sum.splits)

lemma decompressZstd_keeps:
  "decompressZstd t d w = (r, w1) \<Longrightarrow>
     files w1 = files w \<and> manifests w1 = manifests w \<and> cache w1 = cache w"
  by (auto simp: decompressZstd_def Let_def split: sum.splits)

lemma decryptAndDecompress_keeps:
  assumes "decryptAndDecompress t e p w = (r, w1)"
  shows "files w1 = files w \<and> manifests w1 = manifests w"
  using assms
  by (auto simp: decryptAndDecompress_def split: option.splits prod.splits sum.splits
           dest!: decryptAge_keeps decompressZstd_keeps)

lemma decryptAndDecompress_cached:
  assumes "decryptAndDecompress t e p w = (Inr d, w1)"
  shows "cache w1 p = Some d"
  using assms
  by (auto simp: decryptAndDecompress_def split: option.splits prod.splits sum.splits
           dest!: decryptAge_keeps decompressZstd_keeps)

lemma decryptAndDecompress_hit:
  "cache w p = Some d \<Longrightarrow> decryptAndDecompress t e p w = (Inr d, w)"
  by (simp add: decryptAndDecompress_def)

lemma decryptChunks_append:
  "decryptChunks t e (pre @ post) arr w =
     (case decryptChunks t e pre arr w of
        (Inl err, w1) \<Rightarrow> (Inl err, w1)
      | (Inr arr1, w1) \<Rightarrow> decryptChunks t e post arr1 w1)"
  by (induction pre arbitrary: arr w) (auto simp: Let_def split: prod.splits sum.splits)

lemma decryptChunks_keeps:
  "decryptChunks t e cs arr w = (r, w1) \<Longrightarrow> files w1 = files w \<and> manifests w1 = manifests w"
proof (induction cs arbitrary: arr w)
  case Nil
  then show ?case by simp
next
  case (Cons c cs)
  obtain r0 w0 where d: "decryptAndDecompress t e (Some (path c)) w = (r0, w0)"
    by (cases "decryptAndDecompress t e (Some (path c)) w")
  have k: "files w0 = files w \<and> manifests w0 = manifests w"
    using decryptAndDecompress_keeps [OF d] .
  show ?case
  proof (cases r0)
    case (Inl err)
    with Cons.prems d k show ?thesis by simp
  next
    case (Inr chunkData)
    show ?thesis
    proof (cases "calculateHash t chunkData = hash c")
      case True
      with Cons.prems d Inr
      have "decryptChunks t e cs (array_set arr (index c) chunkData) w0 = (r, w1)"
        by simp
      from Cons.IH [OF this] k show ?thesis by simp
    next
      case False
      with Cons.prems d Inr k show ?thesis by simp
    qed
  qed
qed





lemma decryptFile_mismatch:
  assumes m: "manifests w mp = Some m" and ch: "isChunked m = Some True"
    and cs: "chunks m = pre @ c # post"
    and pre: "decryptChunks t e pre [] w = (Inr arr, w1)"
    and dec: "decryptAndDecompress t e (Some (path c)) w1 = (Inr d, w2)"
    and ne: "calculateHash t d \<noteq> hash c"
  shows "decryptFile t e mp out w =
           (Inl (ChunkError (hash_mismatch c (calculateHash t d))), w2)"
proof -
  have "decryptChunks t e (c # post) arr w1 =
          (Inl (ChunkError (hash_mismatch c (calculateHash t d))), w2)"
    using dec ne by simp
  then have "decryptChunks t e (chunks m) [] w =
          (Inl (ChunkError (hash_mismatch c (calculateHash t d))), w2)"
    using pre by (simp add: cs decryptChunks_append)
  then show ?thesis
    using m ch by (simp add: decryptFile_def)
qed

text \<open>
  C5: when \<open>decryptFile\<close> works through a chunked manifest and the digest of a chunk's
  decoded plaintext differs from the recorded \<open>hash\<close>, the call fails with a
  \<open>ChunkError\<close> whose message names the index of that chunk, the recorded digest and
  the recomputed one. Nothing is returned and no output file is written: the files are
  those of the start.
\<close>

theorem hash_mismatch_is_fatal:
  assumes "manifests w mp = Some m" and "isChunked m = Some True"
    and "chunks m = pre @ c # post"
    and "decryptChunks t e pre [] w = (Inr arr, w1)"
    and "decryptAndDecompress t e (Some (path c)) w1 = (Inr d, w2)"
    and "calculateHash t d \<noteq> hash c"
  shows "decryptFile t e mp out w =
           (Inl (ChunkError (''Chunk '' @ toString (index c) @ '' hash mismatch! Expected ''
                   @ hash c @ '', got '' @ calculateHash t d)), w2)
         \<and> files w2 = files w"
proof -
  have "files w1 = files w"
    using decryptChunks_keeps [OF assms(4)] by simp
  moreover have "files w2 = files w1"
    using decryptAndDecompress_keeps [OF assms(5)] by simp
  ultimately show ?thesis
    using decryptFile_mismatch [OF assms] by (simp add: hash_mismatch_def)
qed

text \<open>
  C10: \<open>decryptAndDecompress\<close> stores the decoded plaintext in the cache before
  \<open>decryptFile\<close> compares digests. After \<open>decryptFile\<close> has failed on a chunk whose
  digest does not match, the cache holds that plaintext under the chunk's path, and a
  later decode of the path, with whatever programs and keys, returns those bytes and
  leaves the state as it is: nothing is decoded or verified again.
\<close>

theorem mismatching_plaintext_stays_cached:
  assumes "manifests w mp = Some m" and "isChunked m = Some True"
    and "chunks m = pre @ c # post"
    and "decryptChunks t e pre [] w = (Inr arr, w1)"
    and "decryptAndDecompress t e (Some (path c)) w1 = (Inr d, w2)"
    and "calculateHash t d \<noteq> hash c"
  shows "(\<exists>msg. decryptFile t e mp out w = (Inl (ChunkError msg), w2))
         \<and> cache w2 (Some (path c)) = Some d
         \<and> decryptAndDecompress t' e' (Some (path c)) w2 = (Inr d, w2)"
proof -
  have c: "cache w2 (Some (path c)) = Some d"
    using decryptAndDecompress_cached [OF assms(5)] .
  show ?thesis
    using decryptFile_mismatch [OF assms] c decryptAndDecompress_hit [OF c] by simp
qed

text \<open>
  C8: once \<open>decryptAndDecompress\<close> has returned plaintext for a location, a second call
  for that location returns the same bytes and leaves the state unchanged, whatever the
  programs, the keys and the files are by then: no program is started. \<open>clearCache\<close>
  empties the cache, and if the first call was not itself served from the cache, the
  next call after \<open>clearCache\<close> decodes again: it starts the two programs once more and
  returns the same bytes.
\<close>

theorem decode_cache_idempotent:
  assumes "decryptAndDecompress t e p w = (Inr d, w1)"
  shows "decryptAndDecompress t' e' p (w1\<lparr>files := f'\<rparr>) = (Inr d, w1\<lparr>files := f'\<rparr>)
         \<and> cache (clearCache w1) = Map.empty
         \<and> (cache w p = None \<longrightarrow>
              (\<exists>w2. decryptAndDecompress t e p (clearCache w1) = (Inr d, w2)
                    \<and> length (execs w2) = length (execs w1) + 2
                    \<and> cache w2 p = Some d))"
proof -
  have c: "cache (w1\<lparr>files := f'\<rparr>) p = Some d"
    using decryptAndDecompress_cached [OF assms] by simp
  have 1: "decryptAndDecompress t' e' p (w1\<lparr>files := f'\<rparr>) = (Inr d, w1\<lparr>files := f'\<rparr>)"
    using decryptAndDecompress_hit [OF c] .
  have 2: "cache (clearCache w1) = Map.empty"
    by (simp add: clearCache_def)
  have 3: "\<exists>w2. decryptAndDecompress t e p (clearCache w1) = (Inr d, w2)
                    \<and> length (execs w2) = length (execs w1) + 2
                    \<and> cache w2 p = Some d" if miss: "cache w p = None"
    using assms miss
    by (auto simp: decryptAndDecompress_def decryptAge_def decompressZstd_def clearCache_def Let_def
             split: option.splits if_splits sum.splits prod.splits)
  from 1 2 3 show ?thesis by blast
qed


theorem hash_mismatch_is_fatal_witness:
  "fst (decryptFile toy_tools toy_env ''bad.json'' ''out'' store_world)
     = Inl (ChunkError ''Chunk 1 hash mismatch! Expected 34, got 77'')
   \<and> files (snd (decryptFile toy_tools toy_env ''bad.json'' ''out'' store_world)) ''out'' = None"
proof -
  let ?m = "chunked_manifest 4 [chunk_a, chunk_b 1 ''34'']"
  let ?w1 = "snd (decryptChunks toy_tools toy_env [chunk_a] [] store_world)"
  let ?w2 = "snd (decryptAndDecompress toy_tools toy_env (Some (path (chunk_b 1 ''34''))) ?w1)"
  have h1: "manifests store_world ''bad.json'' = Some ?m"
    by (simp add: store_world_def)
  have h2: "isChunked ?m = Some True"
    by (simp add: chunked_manifest_def)
  have h3: "chunks ?m = [chunk_a] @ chunk_b 1 ''34'' # []"
    by (simp add: chunked_manifest_def)
  have "fst (decryptChunks toy_tools toy_env [chunk_a] [] store_world) = Inr [Some [1, 2]]"
    by code_simp
  then have h4: "decryptChunks toy_tools toy_env [chunk_a] [] store_world = (Inr [Some [1, 2]], ?w1)"
    by (simp add: prod_eq_iff)
  have "fst (decryptAndDecompress toy_tools toy_env (Some (path (chunk_b 1 ''34''))) ?w1)
          = Inr [7, 7]"
    by code_simp
  then have h5: "decryptAndDecompress toy_tools toy_env (Some (path (chunk_b 1 ''34''))) ?w1
                   = (Inr [7, 7], ?w2)"
    by (simp add: prod_eq_iff)
  have h6: "calculateHash toy_tools [7, 7] \<noteq> hash (chunk_b 1 ''34'')"
    by code_simp
  have msg: "''Chunk '' @ toString (index (chunk_b 1 ''34'')) @ '' hash mismatch! Expected ''
               @ hash (chunk_b 1 ''34'') @ '', got '' @ calculateHash toy_tools [7, 7]
             = ''Chunk 1 hash mismatch! Expected 34, got 77''"
    by code_simp
  have f: "files store_world ''out'' = None"
    by (simp add: store_world_def)
  from hash_mismatch_is_fatal [OF h1 h2 h3 h4 h5 h6, of "''out''"] msg f
  show ?thesis by simp
qed

theorem mismatching_plaintext_stays_cached_witness:
  "(\<exists>msg. fst (decryptFile toy_tools toy_env ''bad.json'' ''out'' store_world)
            = Inl (ChunkError msg))
   \<and> cache (snd (decryptFile toy_tools toy_env ''bad.json'' ''out'' store_world)) (Some ''b'')
       = Some [7, 7]
   \<and> fst (decryptAndDecompress toy_tools no_keys_env (Some ''b'')
            (snd (decryptFile toy_tools toy_env ''bad.json'' ''out'' store_world)))
       = Inr [7, 7]"
proof -
  let ?m = "chunked_manifest 4 [chunk_a, chunk_b 1 ''34'']"
  let ?w1 = "snd (decryptChunks toy_tools toy_env [chunk_a] [] store_world)"
  let ?w2 = "snd (decryptAndDecompress toy_tools toy_env (Some (path (chunk_b 1 ''34''))) ?w1)"
  have h1: "manifests store_world ''bad.json'' = Some ?m"
    by (simp add: store_world_def)
  have h2: "isChunked ?m = Some True"
    by (simp add: chunked_manifest_def)
  have h3: "chunks ?m = [chunk_a] @ chunk_b 1 ''34'' # []"
    by (simp add: chunked_manifest_def)
  have "fst (decryptChunks toy_tools toy_env [chunk_a] [] store_world) = Inr [Some [1, 2]]"
    by code_simp
  then have h4: "decryptChunks toy_tools toy_env [chunk_a] [] store_world = (Inr [Some [1, 2]], ?w1)"
    by (simp add: prod_eq_iff)
  have "fst (decryptAndDecompress toy_tools toy_env (Some (path (chunk_b 1 ''34''))) ?w1)
          = Inr [7, 7]"
    by code_simp
  then have h5: "decryptAndDecompress toy_tools toy_env (Some (path (chunk_b 1 ''34''))) ?w1
                   = (Inr [7, 7], ?w2)"
    by (simp add: prod_eq_iff)
  have h6: "calculateHash toy_tools [7, 7] \<noteq> hash (chunk_b 1 ''34'')"
    by code_simp
  have p: "path (chunk_b 1 ''34'') = ''b''"
    by (simp add: chunk_b_def)
  from mismatching_plaintext_stays_cached
         [OF h1 h2 h3 h4 h5 h6, of "''out''" toy_tools no_keys_env]
  show ?thesis unfolding p by auto
qed

theorem decode_cache_idempotent_witness:
  "fst (decryptAndDecompress toy_tools toy_env (Some ''a'') store_world) = Inr [1, 2]
   \<and> decryptAndDecompress toy_tools no_keys_env (Some ''a'')
        (snd (decryptAndDecompress toy_tools toy_env (Some ''a'') store_world)\<lparr>files := Map.empty\<rparr>)
       = (Inr [1, 2],
          snd (decryptAndDecompress toy_tools toy_env (Some ''a'') store_world)\<lparr>files := Map.empty\<rparr>)
   \<and> (\<exists>w2. decryptAndDecompress toy_tools toy_env (Some ''a'')
               (clearCache (snd (decryptAndDecompress toy_tools toy_env (Some ''a'') store_world)))
              = (Inr [1, 2], w2)
            \<and> length (execs w2) = 4)"
proof -
  let ?w1 = "snd (decryptAndDecompress toy_tools toy_env (Some ''a'') store_world)"
  have r: "fst (decryptAndDecompress toy_tools toy_env (Some ''a'') store_world) = Inr [1, 2]"
    by code_simp
  then have h: "decryptAndDecompress toy_tools toy_env (Some ''a'') store_world = (Inr [1, 2], ?w1)"
    by (simp add: prod_eq_iff)
  have miss: "cache store_world (Some ''a'') = None"
    by (simp add: store_world_def)
  have len: "length (execs ?w1) = 2"
    by code_simp
  from decode_cache_idempotent [OF h, of toy_tools no_keys_env Map.empty] miss len r
  show ?thesis by auto
qed

section \<open>Absent keys\<close>

text \<open>
  C9, as the code has it: with the public key absent (unset or empty) \<open>encryptAge\<close>
  fails at once with an \<open>EncryptionError\<close> saying that \<open>AGE_PUBLIC_KEY\<close> is required and
  starts no program; inside \<open>compressAndEncrypt\<close> the compression has run by then, and
  nothing is written. With the private key absent \<open>decryptAge\<close> fails at once with a
  \<open>DecryptionError\<close> saying that \<open>AGE_PRIVATE_KEY\<close> is required and starts no program;
  \<open>decryptAndDecompress\<close> fails the same way for a location that is not in the cache,
  and returns the cached bytes for one that is.
\<close>

theorem absent_key_fails:
  "((AGE_PUBLIC_KEY e = None \<or> AGE_PUBLIC_KEY e = Some []) \<longrightarrow>
      encryptAge t e data w
        = (Inl (EncryptionError ''AGE_PUBLIC_KEY environment variable required''), w)
      \<and> (\<exists>err. compressAndEncrypt t e data outputPath w
                   = (Inl err, w\<lparr>execs := execs w @ [Zstd_c data]\<rparr>)
                 \<and> (err = EncryptionError ''AGE_PUBLIC_KEY environment variable required''
                      \<or> (\<exists>msg. execSync (zstd_compress t data) = Inl msg
                            \<and> err = CompressionError (''Zstd compression failed: '' @ msg)))))
   \<and> ((AGE_PRIVATE_KEY e = None \<or> AGE_PRIVATE_KEY e = Some []) \<longrightarrow>
      decryptAge t e inputPath w
        = (Inl (DecryptionError ''AGE_PRIVATE_KEY environment variable required''), w)
      \<and> decryptAndDecompress t e inputPath w
        = (case cache w inputPath of
             Some cached \<Rightarrow> (Inr cached, w)
           | None \<Rightarrow>
               (Inl (DecryptionError ''AGE_PRIVATE_KEY environment variable required''), w)))"
proof -
  have enc: "encryptAge t e d w'
        = (Inl (EncryptionError ''AGE_PUBLIC_KEY environment variable required''), w')"
    if "AGE_PUBLIC_KEY e = None \<or> AGE_PUBLIC_KEY e = Some []" for d w'
    using that by (auto simp: encryptAge_def)
  have dec: "decryptAge t e inputPath w
        = (Inl (DecryptionError ''AGE_PRIVATE_KEY environment variable required''), w)"
    if "AGE_PRIVATE_KEY e = None \<or> AGE_PRIVATE_KEY e = Some []"
    using that by (auto simp: decryptAge_def)
  have cae: "\<exists>err. compressAndEncrypt t e data outputPath w
                   = (Inl err, w\<lparr>execs := execs w @ [Zstd_c data]\<rparr>)
                 \<and> (err = EncryptionError ''AGE_PUBLIC_KEY environment variable required''
                      \<or> (\<exists>msg. execSync (zstd_compress t data) = Inl msg
                            \<and> err = CompressionError (''Zstd compression failed: '' @ msg)))"
    if k: "AGE_PUBLIC_KEY e = None \<or> AGE_PUBLIC_KEY e = Some []"
  proof (cases "execSync (zstd_compress t data)")
    case (Inl msg)
    then show ?thesis
      by (simp add: compressAndEncrypt_def compressZstd_def)
  next
    case (Inr compressed)
    then show ?thesis
      by (simp add: compressAndEncrypt_def compressZstd_def enc [OF k])
  qed
  have dad: "decryptAndDecompress t e inputPath w
        = (case cache w inputPath of
             Some cached \<Rightarrow> (Inr cached, w)
           | None \<Rightarrow>
               (Inl (DecryptionError ''AGE_PRIVATE_KEY environment variable required''), w))"
    if k: "AGE_PRIVATE_KEY e = None \<or> AGE_PRIVATE_KEY e = Some []"
    by (simp add: decryptAndDecompress_def dec [OF k] split: option.splits)
  from enc cae dec dad show ?thesis by blast
qed

theorem absent_key_fails_witness:
  "AGE_PUBLIC_KEY no_keys_env = None \<and> AGE_PRIVATE_KEY no_keys_env = None
   \<and> encryptAge toy_tools no_keys_env [0x28, 1, 2] store_world
       = (Inl (EncryptionError ''AGE_PUBLIC_KEY environment variable required''), store_world)
   \<and> decryptAge toy_tools no_keys_env (Some ''a'') store_world
       = (Inl (DecryptionError ''AGE_PRIVATE_KEY environment variable required''), store_world)
   \<and> decryptAndDecompress toy_tools no_keys_env (Some ''a'') store_world
       = (Inl (DecryptionError ''AGE_PRIVATE_KEY environment variable required''), store_world)"
proof -
  have k: "AGE_PUBLIC_KEY no_keys_env = None" "AGE_PRIVATE_KEY no_keys_env = None"
    by (simp_all add: no_keys_env_def)
  have c: "cache store_world (Some ''a'') = None"
    by (simp add: store_world_def)
  from absent_key_fails [of no_keys_env toy_tools "[0x28, 1, 2]" store_world "''o/x''" "Some ''a''"]
    k c
  show ?thesis by simp
qed

text \<open>
  C9 as stated fails: with both keys absent, encoding the bytes 1, 2 ends in an
  \<open>EncryptionError\<close> after \<open>zstd\<close> has been run on them, and decoding ends in a
  \<open>DecryptionError\<close>. The code has no configuration error.
\<close>

theorem absent_key_counterexample:
  "fst (compressAndEncrypt toy_tools no_keys_env [1, 2] ''o/x'' store_world)
     = Inl (EncryptionError ''AGE_PUBLIC_KEY environment variable required'')
   \<and> execs (snd (compressAndEncrypt toy_tools no_keys_env [1, 2] ''o/x'' store_world))
     = [Zstd_c [1, 2]]
   \<and> fst (decryptAndDecompress toy_tools no_keys_env (Some ''a'') store_world)
     = Inl (DecryptionError ''AGE_PRIVATE_KEY environment variable required'')"
  by code_simp

section \<open>The local array of decryptFile\<close>






text \<open>
  A listed index of \<open>2^32 - 1\<close> or more is not an array index: in \<open>far.json\<close> the
  chunk with that index is decoded and its digest compared, and it is left out of the
  result.
\<close>

lemma index_beyond_array_is_left_out:
  "fst (decryptFile toy_tools toy_env ''far.json'' ''out'' store_world) = Inr [1, 2]
   \<and> execs (snd (decryptFile toy_tools toy_env ''far.json'' ''out'' store_world))
      = [Age_d ''sk'' ''a'', Zstd_d [0x28, 1, 2], Age_d ''sk'' ''b'', Zstd_d [0x28, 7, 7]]"
  by code_simp




section \<open>The write path\<close>

text \<open>\<open>ceil_div\<close> is the ceiling of the quotient, as \<open>Math.ceil(fileSize / CHUNK_SIZE)\<close>.\<close>

lemma ceil_div_is_ceiling:
  assumes "0 < T"
  shows "int (ceil_div N T) = \<lceil>real N / real T\<rceil>"
proof -
  have "\<lceil>real N / real T\<rceil> = \<lceil>of_int (int N) / (of_int (int T) :: real)\<rceil>" by simp
  also have "\<dots> = - (- int N div int T)"
    by (rule ceiling_divide_eq_div)
  finally have c: "\<lceil>real N / real T\<rceil> = - (- int N div int T)" .
  show ?thesis
  proof (cases "N mod T = 0")
    case True
    then have "int T dvd int N" by (metis int_dvd_int_iff mod_eq_0_iff_dvd)
    then have "- int N div int T = - (int N div int T)"
      by (simp add: div_minus_minus dvd_neg_div)
    with True c show ?thesis by (simp add: ceil_div_def zdiv_int)
  next
    case False
    then have "int N mod int T \<noteq> 0" by (metis of_nat_mod of_nat_eq_0_iff)
    then have "- int N div int T = - (int N div int T) - 1"
      using \<open>0 < T\<close> by (simp add: zdiv_zminus1_eq_if)
    with False c show ?thesis by (simp add: ceil_div_def zdiv_int)
  qed
qed



lemma execSync_short:
  "command = Inr out \<Longrightarrow> length out \<le> maxBuffer \<Longrightarrow> execSync command = Inr out"
  by (simp add: execSync_def)


lemma compressAndEncrypt_Inr:
  assumes "compressAndEncrypt t e d p w = (Inr u, w1)"
  shows "\<exists>pk c enc. AGE_PUBLIC_KEY e = Some pk \<and> pk \<noteq> []
           \<and> execSync (zstd_compress t d) = Inr c
           \<and> execSync (age_encrypt t pk c) = Inr enc
           \<and> w1 = w\<lparr>files := (files w)(p \<mapsto> enc), execs := execs w @ [Zstd_c d, Age_e pk c]\<rparr>"
  using assms
  by (auto simp: compressAndEncrypt_def compressZstd_def encryptAge_def Let_def
           split: sum.splits option.splits if_splits)


lemma compressAndEncrypt_succeeds:
  assumes "AGE_PUBLIC_KEY e = Some pk" and "pk \<noteq> []"
    and "execSync (zstd_compress t d) = Inr c" and "execSync (age_encrypt t pk c) = Inr enc"
  shows "compressAndEncrypt t e d p w
           = (Inr (), w\<lparr>files := (files w)(p \<mapsto> enc), execs := execs w @ [Zstd_c d, Age_e pk c]\<rparr>)"
  using assms
  by (simp add: compressAndEncrypt_def compressZstd_def encryptAge_def)

text \<open>
  A file of at most the ceiling: when the public key is set and both commands succeed,
  \<open>chunkFile\<close> writes the one artifact and returns the manifest of a single file; and a
  manifest is returned in no other way.
\<close>

lemma chunkFile_single_run:
  assumes "files w ip = Some bytes" and "length bytes \<le> MAX_GITHUB_SIZE"
    and "AGE_PUBLIC_KEY e = Some pk" and "pk \<noteq> []"
    and "execSync (zstd_compress t bytes) = Inr c"
    and "execSync (age_encrypt t pk c) = Inr enc"
  shows "chunkFile t e ip od bn w
           = (Inr \<lparr>originalFile = bn, originalSize = length bytes, numChunks = 1,
                   chunkSize = CHUNK_SIZE e, chunks = [], createdAt = now e,
                   isChunked = Some False,
                   path_m = Some (path_join t od (bn @ ''.age.zst'')),
                   size_m = Some (length enc),
                   hash_m = Some (calculateHash t bytes)\<rparr>,
              w\<lparr>files := (files w)(path_join t od (bn @ ''.age.zst'') \<mapsto> enc),
                 execs := execs w @ [Zstd_c bytes, Age_e pk c]\<rparr>)"
  using assms(1,2) compressAndEncrypt_succeeds [OF assms(3-6)]
  by (simp add: chunkFile_def stat_size_def processSmallFile_def Let_def)

lemma chunkFile_small:
  assumes "files w ip = Some bytes" and "length bytes \<le> MAX_GITHUB_SIZE"
    and "chunkFile t e ip od bn w = (Inr m, w1)"
  shows "\<exists>pk c enc. AGE_PUBLIC_KEY e = Some pk \<and> pk \<noteq> []
           \<and> execSync (zstd_compress t bytes) = Inr c
           \<and> execSync (age_encrypt t pk c) = Inr enc
           \<and> w1 = w\<lparr>files := (files w)(path_join t od (bn @ ''.age.zst'') \<mapsto> enc),
                      execs := execs w @ [Zstd_c bytes, Age_e pk c]\<rparr>
           \<and> m = \<lparr>originalFile = bn, originalSize = length bytes, numChunks = 1,
                   chunkSize = CHUNK_SIZE e, chunks = [], createdAt = now e,
                   isChunked = Some False,
                   path_m = Some (path_join t od (bn @ ''.age.zst'')),
                   size_m = Some (length enc),
                   hash_m = Some (calculateHash t bytes)\<rparr>"
proof -
  let ?p = "path_join t od (bn @ ''.age.zst'')"
  from assms have ps: "processSmallFile t e ip od bn w = (Inr m, w1)"
    by (simp add: chunkFile_def stat_size_def)
  obtain r w0 where ce: "compressAndEncrypt t e bytes ?p w = (r, w0)"
    by (cases "compressAndEncrypt t e bytes ?p w")
  from ps ce assms(1) obtain u where r: "r = Inr u"
    by (auto simp: processSmallFile_def Let_def split: sum.splits)
  from compressAndEncrypt_Inr [OF ce [unfolded r]] obtain pk c enc where
    k: "AGE_PUBLIC_KEY e = Some pk" "pk \<noteq> []" "execSync (zstd_compress t bytes) = Inr c"
       "execSync (age_encrypt t pk c) = Inr enc"
    by blast
  from chunkFile_single_run [OF assms(1,2) k, of od bn] assms(3) k show ?thesis
    by auto
qed

text \<open>
  A file above the ceiling: the first \<open>fileHandle.read\<close> throws, then
  \<open>fileHandle.close\<close> in \<open>finally\<close> throws the error that \<open>chunkFile\<close> ends with.
  Nothing has been started or written by then, whatever the chunk size is.
\<close>

lemma chunkLoop_throws:
  "chunkLoop t e fileHandle od bn fileSize i acc w
     = (if more_chunks e fileSize i
        then (Inl (TypeError ''fileHandle.read is not a function''), w)
        else (Inr acc, w))"
  by (subst chunkLoop.simps) (simp add: fileHandle_read_def)

lemma chunkFile_above_ceiling:
  assumes "files w ip = Some bytes" and "MAX_GITHUB_SIZE < length bytes"
  shows "chunkFile t e ip od bn w
           = (Inl (TypeError ''fileHandle.close is not a function''), w)"
  using assms
  by (simp add: chunkFile_def stat_size_def fs_open_def chunkLoop_throws fileHandle_close_def)

lemma long_file:
  "files (source_world (replicate 104857601 0)) ''in'' = Some (replicate 104857601 0)"
  "MAX_GITHUB_SIZE < length (replicate 104857601 (0 :: byte))"
  by (simp_all add: source_world_def MAX_GITHUB_SIZE_def)

lemma toy_four:
  "files (source_world [1, 2, 3, 4]) ''in'' = Some [1, 2, 3, 4]"
  "length [1, 2, 3, 4 :: byte] \<le> MAX_GITHUB_SIZE"
  "AGE_PUBLIC_KEY toy_env = Some ''pk''" "''pk'' \<noteq> []"
  "execSync (zstd_compress toy_tools [1, 2, 3, 4]) = Inr [0x28, 1, 2, 3, 4]"
  "execSync (age_encrypt toy_tools ''pk'' [0x28, 1, 2, 3, 4]) = Inr [0x61, 0x28, 1, 2, 3, 4]"
  by (simp_all add: source_world_def MAX_GITHUB_SIZE_def toy_env_def toy_tools_def
        execSync_def maxBuffer_def)

lemma toy_four_manifest:
  "\<lparr>originalFile = ''f'', originalSize = length [1, 2, 3, 4 :: byte], numChunks = 1,
     chunkSize = CHUNK_SIZE toy_env, chunks = [], createdAt = now toy_env,
     isChunked = Some False,
     path_m = Some (path_join toy_tools ''o'' (''f'' @ ''.age.zst'')),
     size_m = Some (length [0x61, 0x28, 1, 2, 3, 4 :: byte]),
     hash_m = Some (calculateHash toy_tools [1, 2, 3, 4])\<rparr> = four_manifest"
proof -
  have "calculateHash toy_tools [1, 2, 3, 4] = ''1234''"
    by code_simp
  then show ?thesis
    by (simp add: four_manifest_def toy_env_def toy_tools_def)
qed

text \<open>
  C6 fails on the code above the ceiling. For a file of at most the ceiling, with the
  public key set and both commands succeeding, \<open>chunkFile\<close> writes exactly one artifact
  (the encoding of the whole file) and returns a manifest with \<open>isChunked = false\<close> and
  no chunk records. For every file above the ceiling it ends in the \<open>TypeError\<close> of
  \<open>fileHandle.close\<close> with the store as it was: no chunk is read, encoded or written, and
  no manifest.
\<close>

theorem chunk_planning:
  assumes "files w inputPath = Some bytes"
  shows "(length bytes \<le> MAX_GITHUB_SIZE \<longrightarrow>
            (\<forall>pk c enc. AGE_PUBLIC_KEY e = Some pk \<longrightarrow> pk \<noteq> [] \<longrightarrow>
               execSync (zstd_compress t bytes) = Inr c \<longrightarrow>
               execSync (age_encrypt t pk c) = Inr enc \<longrightarrow>
               chunkFile t e inputPath outputDir baseName w
                 = (Inr \<lparr>originalFile = baseName, originalSize = length bytes, numChunks = 1,
                         chunkSize = CHUNK_SIZE e, chunks = [], createdAt = now e,
                         isChunked = Some False,
                         path_m = Some (path_join t outputDir (baseName @ ''.age.zst'')),
                         size_m = Some (length enc),
                         hash_m = Some (calculateHash t bytes)\<rparr>,
                    w\<lparr>files := (files w)(path_join t outputDir (baseName @ ''.age.zst'')
                                           \<mapsto> enc),
                       execs := execs w @ [Zstd_c bytes, Age_e pk c]\<rparr>)))
         \<and> (MAX_GITHUB_SIZE < length bytes \<longrightarrow>
              chunkFile t e inputPath outputDir baseName w
                = (Inl (TypeError ''fileHandle.close is not a function''), w))"
proof (intro conjI impI allI)
  fix pk c enc
  assume "length bytes \<le> MAX_GITHUB_SIZE" and "AGE_PUBLIC_KEY e = Some pk" and "pk \<noteq> []"
    and "execSync (zstd_compress t bytes) = Inr c"
    and "execSync (age_encrypt t pk c) = Inr enc"
  with assms show "chunkFile t e inputPath outputDir baseName w
      = (Inr \<lparr>originalFile = baseName, originalSize = length bytes, numChunks = 1,
              chunkSize = CHUNK_SIZE e, chunks = [], createdAt = now e,
              isChunked = Some False,
              path_m = Some (path_join t outputDir (baseName @ ''.age.zst'')),
              size_m = Some (length enc),
              hash_m = Some (calculateHash t bytes)\<rparr>,
         w\<lparr>files := (files w)(path_join t outputDir (baseName @ ''.age.zst'') \<mapsto> enc),
            execs := execs w @ [Zstd_c bytes, Age_e pk c]\<rparr>)"
    by (rule chunkFile_single_run)
next
  assume "MAX_GITHUB_SIZE < length bytes"
  with assms show "chunkFile t e inputPath outputDir baseName w
      = (Inl (TypeError ''fileHandle.close is not a function''), w)"
    by (rule chunkFile_above_ceiling)
qed

theorem chunk_planning_witness:
  "chunkFile toy_tools toy_env ''in'' ''o'' ''f'' (source_world [1, 2, 3, 4])
     = (Inr four_manifest,
        (source_world [1, 2, 3, 4])
          \<lparr>files := (files (source_world [1, 2, 3, 4]))
                      (''o/f.age.zst'' \<mapsto> [0x61, 0x28, 1, 2, 3, 4]),
           execs := [Zstd_c [1, 2, 3, 4], Age_e ''pk'' [0x28, 1, 2, 3, 4]]\<rparr>)
   \<and> chunkFile toy_tools toy_env ''in'' ''o'' ''f'' (source_world (replicate 104857601 0))
     = (Inl (TypeError ''fileHandle.close is not a function''),
        source_world (replicate 104857601 0))"
proof -
  have p: "path_join toy_tools ''o'' (''f'' @ ''.age.zst'') = ''o/f.age.zst''"
    by (simp add: toy_tools_def)
  have e: "execs (source_world [1, 2, 3, 4]) = []"
    by (simp add: source_world_def)
  note small = chunk_planning [OF toy_four(1), of toy_env toy_tools "''o''" "''f''",
      THEN conjunct1, THEN mp, OF toy_four(2), rule_format, OF toy_four(3-6)]
  note large = chunk_planning [OF long_file(1), of toy_env toy_tools "''o''" "''f''",
      THEN conjunct2, THEN mp, OF long_file(2)]
  from small [unfolded toy_four_manifest, unfolded p e] large show ?thesis
    by simp
qed











section \<open>Where the code departs from the specification\<close>

text \<open>
  C1 fails on the code for every file above the ceiling: \<open>chunkFile\<close> ends in the
  \<open>TypeError\<close> of \<open>fileHandle.close\<close> and leaves the store as it was. It returns no
  manifest and writes none, so there is nothing to reconstruct from: \<open>decryptFile\<close> on a
  manifest path that was not there before fails, since no such file exists.
\<close>

theorem round_trip_fails_above_ceiling:
  assumes "files w inputPath = Some bytes" and "MAX_GITHUB_SIZE < length bytes"
  shows "chunkFile t e inputPath outputDir baseName w
           = (Inl (TypeError ''fileHandle.close is not a function''), w)
         \<and> (manifests w manifestPath = None \<longrightarrow>
              decryptFile t' e' manifestPath outputPath
                  (snd (chunkFile t e inputPath outputDir baseName w))
                = (Inl (SystemError (''ENOENT: no such file or directory, open ''
                          @ quoted manifestPath)), w))"
  using chunkFile_above_ceiling [OF assms, of t e outputDir baseName]
  by (simp add: decryptFile_def)

theorem round_trip_fails_above_ceiling_witness:
  "chunkFile toy_tools toy_env ''in'' ''o'' ''f'' (source_world (replicate 104857601 0))
     = (Inl (TypeError ''fileHandle.close is not a function''),
        source_world (replicate 104857601 0))
   \<and> decryptFile toy_tools toy_env ''o/f.manifest.json'' ''out''
        (snd (chunkFile toy_tools toy_env ''in'' ''o'' ''f''
                (source_world (replicate 104857601 0))))
     = (Inl (SystemError (''ENOENT: no such file or directory, open ''
               @ quoted ''o/f.manifest.json'')),
        source_world (replicate 104857601 0))"
proof -
  have m: "manifests (source_world (replicate 104857601 0)) ''o/f.manifest.json'' = None"
    by (simp add: source_world_def)
  note r = round_trip_fails_above_ceiling
         [OF long_file, of toy_tools toy_env "''o''" "''f''" "''o/f.manifest.json''"
            toy_tools toy_env "''out''"]
  have d: "decryptFile toy_tools toy_env ''o/f.manifest.json'' ''out''
        (snd (chunkFile toy_tools toy_env ''in'' ''o'' ''f''
                (source_world (replicate 104857601 0))))
     = (Inl (SystemError (''ENOENT: no such file or directory, open ''
               @ quoted ''o/f.manifest.json'')),
        source_world (replicate 104857601 0))"
    using r [THEN conjunct2, THEN mp, OF m] by simp
  from r [THEN conjunct1] d show ?thesis
    by (rule conjI)
qed

text \<open>
  A file of at most the ceiling is written as one artifact, and no manifest file is
  written for it. When the caller stores the returned manifest, and the external programs
  invert each other on this file, a fresh \<open>FileDecryptor\<close> returns the original bytes.
\<close>

lemma small_file_manifest_not_written:
  assumes "files w ip = Some bytes" and "length bytes \<le> MAX_GITHUB_SIZE"
    and "chunkFile t e ip od bn w = (Inr m, w1)"
  shows "manifests w1 = manifests w"
  using chunkFile_small [OF assms] by auto

lemma small_file_round_trip:
  assumes "files w ip = Some bytes" and "length bytes \<le> MAX_GITHUB_SIZE"
    and "chunkFile t e ip od bn w = (Inr m, w1)"
    and "AGE_PRIVATE_KEY e' = Some k" and "k \<noteq> []"
    and codec: "\<And>pk c enc. AGE_PUBLIC_KEY e = Some pk \<Longrightarrow>
              execSync (zstd_compress t bytes) = Inr c \<Longrightarrow>
              execSync (age_encrypt t pk c) = Inr enc \<Longrightarrow>
              execSync (age_decrypt t k (Some enc)) = Inr c
              \<and> execSync (zstd_decompress t c) = Inr bytes"
  shows "fst (decryptFile t e' mp out ((clearCache w1)\<lparr>manifests := (manifests w1)(mp \<mapsto> m)\<rparr>))
           = Inr bytes"
proof -
  from chunkFile_small [OF assms(1,2,3)] obtain pk c enc where
    k: "AGE_PUBLIC_KEY e = Some pk" "execSync (zstd_compress t bytes) = Inr c"
       "execSync (age_encrypt t pk c) = Inr enc"
    and w1: "files w1 (path_join t od (bn @ ''.age.zst'')) = Some enc"
    and m: "isChunked m = Some False" "path_m m = Some (path_join t od (bn @ ''.age.zst''))"
    by auto
  from codec [OF k] have "execSync (age_decrypt t k (Some enc)) = Inr c"
    "execSync (zstd_decompress t c) = Inr bytes"
    by simp_all
  with w1 m assms(4,5) show ?thesis
    by (simp add: decryptFile_def decryptSingleFile_def decryptAndDecompress_def decryptAge_def
          decompressZstd_def clearCache_def template_def)
qed

text \<open>
  C2 fails on the code: for a manifest that is not chunked, \<open>decryptFile\<close> returns and
  writes whatever the artifact decodes to, also when its digest is not the recorded
  \<open>hash\<close> and its length is not \<open>originalSize\<close>.
\<close>

theorem single_artifact_not_verified:
  assumes "manifests w mp = Some m" and "isChunked m \<noteq> Some True"
    and "decryptAndDecompress t e (path_m m) w = (Inr d, w1)"
    and "hash_m m \<noteq> Some (calculateHash t d)" and "originalSize m \<noteq> length d"
  shows "decryptFile t e mp out w = (Inr d, w1\<lparr>files := (files w1)(out \<mapsto> d)\<rparr>)"
  using assms(1,2,3) by (simp add: decryptFile_def decryptSingleFile_def)

theorem single_artifact_not_verified_witness:
  "fst (decryptFile toy_tools toy_env ''single.json'' ''out'' store_world) = Inr [7, 7]
   \<and> hash_m single_manifest = Some ''12''
   \<and> calculateHash toy_tools [7, 7] = ''77''
   \<and> originalSize single_manifest = 99"
proof -
  let ?w1 = "snd (decryptAndDecompress toy_tools toy_env (path_m single_manifest) store_world)"
  have h1: "manifests store_world ''single.json'' = Some single_manifest"
    by (simp add: store_world_def)
  have h2: "isChunked single_manifest \<noteq> Some True"
    by (simp add: single_manifest_def)
  have "fst (decryptAndDecompress toy_tools toy_env (path_m single_manifest) store_world)
          = Inr [7, 7]"
    by code_simp
  then have h3: "decryptAndDecompress toy_tools toy_env (path_m single_manifest) store_world
                   = (Inr [7, 7], ?w1)"
    by (simp add: prod_eq_iff)
  have c: "calculateHash toy_tools [7, 7] = ''77''"
    by code_simp
  have h: "hash_m single_manifest = Some ''12''" and s: "originalSize single_manifest = 99"
    by (simp_all add: single_manifest_def)
  have h4: "hash_m single_manifest \<noteq> Some (calculateHash toy_tools [7, 7])"
    unfolding c h by simp
  have h5: "originalSize single_manifest \<noteq> length [7, 7 :: byte]"
    unfolding s by simp
  from single_artifact_not_verified [OF h1 h2 h3 h4 h5, of "''out''"] c h s
  show ?thesis by simp
qed

end
